theory Spec2Isabelle
  imports Main "HOL-Library.Sublist"
begin

section \<open>The image generation page (main.py)\<close>

text \<open>
  main.py is a Streamlit script: it is executed from top to bottom once per user
  interaction, and only \<^verbatim>\<open>st.session_state\<close> survives from one execution to the
  next. The embedding follows the script: the values it handles, the two external
  collaborators it calls (the image codec \<^verbatim>\<open>Image.open\<close> and the hosted model
  \<^verbatim>\<open>client.models.generate_content\<close>) as parameters that may raise, the session
  state as an explicit value that each handler returns updated, and every
  \<^verbatim>\<open>try ... except Exception\<close> as a case distinction on a sum type.
\<close>

subsection \<open>Values\<close>

type_synonym bytes = "nat list"

text \<open>A decoded \<^verbatim>\<open>PIL.Image\<close> object. An image object is always truthy in Python.\<close>

datatype image = Image bytes

text \<open>The exceptions the script can meet. Each of them is an \<^verbatim>\<open>Exception\<close>.\<close>

datatype exn =
    TypeError
  | IndexError
  | AttributeError
  | UnidentifiedImageError
  | StreamlitSecretNotFoundError
  | APIError string

text \<open>One element of the \<^verbatim>\<open>contents\<close> list sent to the model: a string or an image.\<close>

datatype content_item = Str string | Img image

text \<open>
  The reply of the model, with the optional fields that the access path
  \<^verbatim>\<open>response.candidates[0].content.parts\<close>, \<^verbatim>\<open>part.text\<close> and
  \<^verbatim>\<open>part.inline_data.data\<close> goes through.
\<close>

record Blob =
  data :: bytes

record Part =
  part_text :: "string option"
  inline_data :: "Blob option"

record Content =
  parts :: "Part list option"

record Candidate =
  content :: "Content option"

record GenerateContentResponse =
  candidates :: "Candidate list option"

text \<open>What the page shows: \<^verbatim>\<open>st.info\<close>, \<^verbatim>\<open>st.warning\<close>, \<^verbatim>\<open>st.success\<close>,
  \<^verbatim>\<open>st.error\<close>; \<open>error_exc\<close> is an error message that formats the exception caught.\<close>

datatype message =
    info string
  | warning string
  | success string
  | error string
  | error_exc string exn

subsection \<open>Session state\<close>

text \<open>
  \<^verbatim>\<open>st.session_state\<close> is a dictionary from key names to values. The script stores a
  list of images, an optional image or a string under its four keys.
\<close>

datatype val = Images "image list" | OptImage "image option" | Text string

type_synonym session_state = "string \<rightharpoonup> val"

text \<open>One guarded assignment of lines 22 to 29:
  \<^verbatim>\<open>if key not in st.session_state: st.session_state.key = default\<close>.\<close>

definition init_key :: "session_state \<Rightarrow> string \<Rightarrow> val \<Rightarrow> session_state" where
  "init_key st k dflt = (if st k = None then st(k \<mapsto> dflt) else st)"

text \<open>Lines 22 to 29, in the order of the script.\<close>

definition initialize :: "session_state \<Rightarrow> session_state" where
  "initialize st =
    (let st1 = init_key st ''generated_images'' (Images []);
         st2 = init_key st1 ''image_history'' (Images []);
         st3 = init_key st2 ''last_generated_image'' (OptImage None);
         st4 = init_key st3 ''last_text_response'' (Text [])
     in st4)"

text \<open>The four entries as the rest of the script reads and writes them.\<close>

record session =
  generated_images :: "image list"
  image_history :: "image list"
  last_generated_image :: "image option"
  last_text_response :: string

definition store_of :: "session \<Rightarrow> session_state" where
  "store_of s =
     [''generated_images'' \<mapsto> Images (generated_images s),
      ''image_history'' \<mapsto> Images (image_history s),
      ''last_generated_image'' \<mapsto> OptImage (last_generated_image s),
      ''last_text_response'' \<mapsto> Text (last_text_response s)]"

text \<open>Reading the four attributes; a missing key is an \<^verbatim>\<open>AttributeError\<close>, and a
  value of another shape than the script stores is a \<^verbatim>\<open>TypeError\<close>.\<close>

definition session_of :: "session_state \<Rightarrow> exn + session" where
  "session_of st =
     (case (st ''generated_images'', st ''image_history'',
            st ''last_generated_image'', st ''last_text_response'') of
        (Some (Images g), Some (Images h), Some (OptImage i), Some (Text t)) \<Rightarrow>
          Inr \<lparr>generated_images = g, image_history = h,
               last_generated_image = i, last_text_response = t\<rparr>
      | (Some _, Some _, Some _, Some _) \<Rightarrow> Inl TypeError
      | _ \<Rightarrow> Inl AttributeError)"

definition empty_session :: session where
  "empty_session =
     \<lparr>generated_images = [], image_history = [],
      last_generated_image = None, last_text_response = []\<rparr>"

subsection \<open>The API key (lines 10 to 14)\<close>

text \<open>\<^verbatim>\<open>a or b\<close> on optional strings: \<open>a\<close> when it is truthy (present and non-empty),
  otherwise \<open>b\<close>, which is evaluated only then and may raise.\<close>

definition resolve_key ::
  "(string \<Rightarrow> string option) \<Rightarrow> (string \<Rightarrow> exn + string option) \<Rightarrow> exn + string option" where
  "resolve_key getenv secrets_get =
     (case getenv ''GEMINI_KEY'' of
        Some k \<Rightarrow> if k \<noteq> [] then Inr (Some k) else secrets_get ''GEMINI_KEY''
      | None \<Rightarrow> secrets_get ''GEMINI_KEY'')"

definition truthy :: "string option \<Rightarrow> bool" where
  "truthy k = (case k of None \<Rightarrow> False | Some s \<Rightarrow> s \<noteq> [])"

subsection \<open>Decoding\<close>

text \<open>The list comprehension \<^verbatim>\<open>[Image.open(img) for img in files]\<close>: the first file
  that does not decode raises.\<close>

fun open_images :: "(bytes \<Rightarrow> exn + image) \<Rightarrow> bytes list \<Rightarrow> exn + image list" where
  "open_images Image_open [] = Inr []"
| "open_images Image_open (f # fs) =
     (case Image_open f of
        Inl e \<Rightarrow> Inl e
      | Inr i \<Rightarrow>
          (case open_images Image_open fs of
             Inl e \<Rightarrow> Inl e
           | Inr is \<Rightarrow> Inr (i # is)))"

text \<open>\<^verbatim>\<open>response.candidates[0].content.parts\<close>, ready for iteration.\<close>

definition response_parts :: "GenerateContentResponse \<Rightarrow> exn + Part list" where
  "response_parts response =
     (case candidates response of
        None \<Rightarrow> Inl TypeError
      | Some [] \<Rightarrow> Inl IndexError
      | Some (c # _) \<Rightarrow>
          (case content c of
             None \<Rightarrow> Inl AttributeError
           | Some ct \<Rightarrow>
               (case parts ct of
                  None \<Rightarrow> Inl TypeError
                | Some ps \<Rightarrow> Inr ps)))"

text \<open>The loop over the parts (lines 59 to 63 and 133 to 137), with the two variables
  \<open>generated_text\<close> and \<open>generated_image\<close> it updates.\<close>

fun parts_loop ::
  "(bytes \<Rightarrow> exn + image) \<Rightarrow> Part list \<Rightarrow> string \<Rightarrow> image option \<Rightarrow> exn + string \<times> image option" where
  "parts_loop Image_open [] generated_text generated_image = Inr (generated_text, generated_image)"
| "parts_loop Image_open (part # ps) generated_text generated_image =
     (case part_text part of
        Some t \<Rightarrow> parts_loop Image_open ps (generated_text @ t @ [CHR 0x0A]) generated_image
      | None \<Rightarrow>
          (case inline_data part of
             Some b \<Rightarrow>
               (case Image_open (data b) of
                  Inl e \<Rightarrow> Inl e
                | Inr img \<Rightarrow> parts_loop Image_open ps generated_text (Some img))
           | None \<Rightarrow> parts_loop Image_open ps generated_text generated_image))"

subsection \<open>The two handlers\<close>

text \<open>What one handler does: the session state it leaves, the messages it shows, the
  calls it made to the model (the \<^verbatim>\<open>contents\<close> sent and what came back), and
  whether it ended in \<^verbatim>\<open>st.rerun()\<close>.\<close>

type_synonym reply = "exn + GenerateContentResponse"

record outcome =
  state :: session
  messages :: "message list"
  calls :: "(content_item list \<times> reply) list"
  rerun :: bool

text \<open>Lines 36 to 74.\<close>

definition generate_initial ::
  "(content_item list \<Rightarrow> reply) \<Rightarrow> (bytes \<Rightarrow> exn + image) \<Rightarrow>
   session \<Rightarrow> string \<Rightarrow> bytes list \<Rightarrow> outcome" where
  "generate_initial generate_content Image_open s initial_prompt uploaded_images =
     (if initial_prompt = [] then
        \<lparr>state = s, messages = [warning ''Please enter an initial prompt.''],
         calls = [], rerun = False\<rparr>
      else
        let started = [info ''Generating initial image... This may take a moment.''];
            failed = (\<lambda>s' cs e.
              \<lparr>state = s',
               messages = started @ [error_exc ''An error occurred during initial generation: '' e],
               calls = cs, rerun = False\<rparr>)
        in
        case (if uploaded_images \<noteq> [] then
                (case open_images Image_open uploaded_images of
                   Inl e \<Rightarrow> Inl e
                 | Inr images_for_content \<Rightarrow>
                     Inr ([Str initial_prompt] @ map Img images_for_content,
                          s\<lparr>image_history := images_for_content\<rparr>))
              else Inr ([Str initial_prompt], s)) of
          Inl e \<Rightarrow> failed s [] e
        | Inr (contents, s1) \<Rightarrow>
            (case generate_content contents of
               Inl e \<Rightarrow> failed s1 [(contents, Inl e)] e
             | Inr response \<Rightarrow>
                 (case response_parts response of
                    Inl e \<Rightarrow> failed s1 [(contents, Inr response)] e
                  | Inr ps \<Rightarrow>
                      (case parts_loop Image_open ps [] None of
                         Inl e \<Rightarrow> failed s1 [(contents, Inr response)] e
                       | Inr (generated_text, generated_image) \<Rightarrow>
                           (case generated_image of
                              Some img \<Rightarrow>
                                \<lparr>state = s1\<lparr>last_generated_image := Some img,
                                             last_text_response := generated_text,
                                             generated_images := generated_images s1 @ [img]\<rparr>,
                                 messages = started @ [success ''Initial image generated successfully!''],
                                 calls = [(contents, Inr response)], rerun = False\<rparr>
                            | None \<Rightarrow>
                                \<lparr>state = s1\<lparr>last_text_response := generated_text\<rparr>,
                                 messages = started @
                                   [warning ''No image was generated. The model might have only returned text.''],
                                 calls = [(contents, Inr response)], rerun = False\<rparr>)))))"

text \<open>Lines 102 to 150. \<^verbatim>\<open>st.rerun()\<close> raises a script control exception, which is
  not an \<^verbatim>\<open>Exception\<close>: the handler above it is not entered, and the state already
  written stays.\<close>

definition generate_next_version ::
  "(content_item list \<Rightarrow> reply) \<Rightarrow> (bytes \<Rightarrow> exn + image) \<Rightarrow>
   session \<Rightarrow> string \<Rightarrow> bytes list \<Rightarrow> outcome" where
  "generate_next_version generate_content Image_open s followup_prompt followup_uploaded_images =
     (if followup_prompt = [] then
        \<lparr>state = s, messages = [warning ''Please enter a prompt for the next version.''],
         calls = [], rerun = False\<rparr>
      else
        let started = [info ''Generating next image version... This may take a moment.''];
            failed = (\<lambda>s' cs e.
              \<lparr>state = s',
               messages = started @ [error_exc ''An error occurred during follow-up generation: '' e],
               calls = cs, rerun = False\<rparr>);
            contents0 = [Str followup_prompt] @
              (case last_generated_image s of Some img \<Rightarrow> [Img img] | None \<Rightarrow> [])
        in
        case (if followup_uploaded_images \<noteq> [] then
                (case open_images Image_open followup_uploaded_images of
                   Inl e \<Rightarrow> Inl e
                 | Inr new_context_images \<Rightarrow>
                     Inr (contents0 @ map Img new_context_images,
                          s\<lparr>image_history := image_history s @ new_context_images\<rparr>))
              else Inr (contents0, s)) of
          Inl e \<Rightarrow> failed s [] e
        | Inr (contents_followup, s1) \<Rightarrow>
            (case generate_content contents_followup of
               Inl e \<Rightarrow> failed s1 [(contents_followup, Inl e)] e
             | Inr response_followup \<Rightarrow>
                 (case response_parts response_followup of
                    Inl e \<Rightarrow> failed s1 [(contents_followup, Inr response_followup)] e
                  | Inr ps \<Rightarrow>
                      (case parts_loop Image_open ps [] None of
                         Inl e \<Rightarrow> failed s1 [(contents_followup, Inr response_followup)] e
                       | Inr (generated_text_followup, generated_image_followup) \<Rightarrow>
                           (case generated_image_followup of
                              Some img \<Rightarrow>
                                \<lparr>state = s1\<lparr>last_generated_image := Some img,
                                             last_text_response := generated_text_followup,
                                             generated_images := generated_images s1 @ [img]\<rparr>,
                                 messages = started @ [success ''Image refined successfully!''],
                                 calls = [(contents_followup, Inr response_followup)], rerun = True\<rparr>
                            | None \<Rightarrow>
                                \<lparr>state = s1\<lparr>last_text_response := generated_text_followup\<rparr>,
                                 messages = started @
                                   [warning ''No new image was generated. The model might have only returned text.''],
                                 calls = [(contents_followup, Inr response_followup)], rerun = False\<rparr>)))))"

subsection \<open>One execution of the script\<close>

text \<open>The widgets of the page as one execution reads them: the two text areas, the two
  file uploaders and the two buttons.\<close>

record ui_input =
  initial_uploader :: "bytes list"
  initial_prompt_area :: string
  generate_initial_button :: bool
  followup_prompt_area :: string
  followup_uploader :: "bytes list"
  generate_next_version_button :: bool

text \<open>Lines 31 to 150 on an initialised session state: the first handler when its
  button was pressed, then the refine column, which exists only when
  \<^verbatim>\<open>st.session_state.last_generated_image\<close> is set (line 79), and its handler.\<close>

definition page ::
  "(content_item list \<Rightarrow> reply) \<Rightarrow> (bytes \<Rightarrow> exn + image) \<Rightarrow> session \<Rightarrow> ui_input \<Rightarrow> outcome" where
  "page generate_content Image_open s inp =
     (let o1 = (if generate_initial_button inp
                then generate_initial generate_content Image_open s
                       (initial_prompt_area inp) (initial_uploader inp)
                else \<lparr>state = s, messages = [], calls = [], rerun = False\<rparr>)
      in if last_generated_image (state o1) \<noteq> None \<and> generate_next_version_button inp then
           let o2 = generate_next_version generate_content Image_open (state o1)
                      (followup_prompt_area inp) (followup_uploader inp)
           in \<lparr>state = state o2, messages = messages o1 @ messages o2,
               calls = calls o1 @ calls o2, rerun = rerun o2\<rparr>
         else o1)"

text \<open>How an execution of the whole script ends: \<^verbatim>\<open>st.stop()\<close>, an exception that
  nothing catches, the last line, or \<^verbatim>\<open>st.rerun()\<close>.\<close>

datatype ending = Stopped | Raised exn | Finished | Rerun

record run =
  store :: session_state
  shown :: "message list"
  sent :: "(content_item list \<times> reply) list"
  ending :: ending

text \<open>The script from line 10 on. \<open>genai_Client\<close> is the client constructed from the
  key on line 16, as the function that performs its \<^verbatim>\<open>generate_content\<close> calls.\<close>

definition script ::
  "(string \<Rightarrow> string option) \<Rightarrow> (string \<Rightarrow> exn + string option) \<Rightarrow>
   (string \<Rightarrow> content_item list \<Rightarrow> reply) \<Rightarrow> (bytes \<Rightarrow> exn + image) \<Rightarrow>
   session_state \<Rightarrow> ui_input \<Rightarrow> run" where
  "script getenv secrets_get genai_Client Image_open st inp =
     (case resolve_key getenv secrets_get of
        Inl e \<Rightarrow> \<lparr>store = st, shown = [], sent = [], ending = Raised e\<rparr>
      | Inr GEMINI_KEY \<Rightarrow>
          (case GEMINI_KEY of
             None \<Rightarrow>
               \<lparr>store = st,
                shown = [error ''Gemini API key not found. Please set it in your environment variables or Streamlit secrets.''],
                sent = [], ending = Stopped\<rparr>
           | Some k \<Rightarrow>
               if k = [] then
                 \<lparr>store = st,
                  shown = [error ''Gemini API key not found. Please set it in your environment variables or Streamlit secrets.''],
                  sent = [], ending = Stopped\<rparr>
               else
                 let st' = initialize st in
                 (case session_of st' of
                    Inl e \<Rightarrow> \<lparr>store = st', shown = [], sent = [], ending = Raised e\<rparr>
                  | Inr s \<Rightarrow>
                      let r = page (genai_Client k) Image_open s inp in
                      \<lparr>store = st' ++ store_of (state r), shown = messages r,
                       sent = calls r, ending = (if rerun r then Rerun else Finished)\<rparr>)))"


subsection \<open>The result of a round, read off the reply\<close>

text \<open>The text and the optional image that a reply of the model decodes to, or the
  exception that reading it raises.\<close>

definition result_of :: "(bytes \<Rightarrow> exn + image) \<Rightarrow> reply \<Rightarrow> exn + string \<times> image option" where
  "result_of Image_open rep =
     (case rep of
        Inl e \<Rightarrow> Inl e
      | Inr response \<Rightarrow>
          (case response_parts response of
             Inl e \<Rightarrow> Inl e
           | Inr ps \<Rightarrow> parts_loop Image_open ps [] None))"


text \<open>The parts of a reply by kind, as the loop tells them apart: a part whose
  \<^verbatim>\<open>text\<close> is not \<^verbatim>\<open>None\<close> is a text part; any other part whose
  \<^verbatim>\<open>inline_data\<close> is not \<^verbatim>\<open>None\<close> is an image part.\<close>

definition text_parts :: "Part list \<Rightarrow> string list" where
  "text_parts ps = List.map_filter part_text ps"

definition image_parts :: "Part list \<Rightarrow> Blob list" where
  "image_parts ps =
     List.map_filter (\<lambda>p. case part_text p of Some t \<Rightarrow> None | None \<Rightarrow> inline_data p) ps"

text \<open>The seed image as a follow-up request carries it (lines 111 and 112): the last
  generated image when there is one.\<close>

definition seed_of :: "session \<Rightarrow> content_item list" where
  "seed_of s = (case last_generated_image s of Some img \<Rightarrow> [Img img] | None \<Rightarrow> [])"


section \<open>Properties\<close>

subsection \<open>Session state initialisation\<close>

lemma init_key_keeps: "st k = Some v \<Longrightarrow> init_key st k' d k = Some v"
  by (auto simp: init_key_def)

lemma init_key_present: "st k \<noteq> None \<Longrightarrow> init_key st k d = st"
  by (auto simp: init_key_def)

lemma init_key_sets: "init_key st k d k \<noteq> None"
  by (simp add: init_key_def)

lemma init_key_mono: "st k \<noteq> None \<Longrightarrow> init_key st k' d k \<noteq> None"
  by (simp add: init_key_def)

lemma initialize_keeps: "st k = Some v \<Longrightarrow> initialize st k = Some v"
  unfolding initialize_def Let_def by (intro init_key_keeps)

lemma initialize_present:
  "initialize st ''generated_images'' \<noteq> None"
  "initialize st ''image_history'' \<noteq> None"
  "initialize st ''last_generated_image'' \<noteq> None"
  "initialize st ''last_text_response'' \<noteq> None"
  unfolding initialize_def Let_def
  by (intro init_key_mono init_key_sets)+

lemma initialize_fixed:
  assumes "st ''generated_images'' \<noteq> None" "st ''image_history'' \<noteq> None"
    "st ''last_generated_image'' \<noteq> None" "st ''last_text_response'' \<noteq> None"
  shows "initialize st = st"
  unfolding initialize_def Let_def using assms by (simp add: init_key_present)

lemma initialize_idem: "initialize (initialize st) = initialize st"
  by (rule initialize_fixed) (rule initialize_present)+

lemma initialize_store_of: "initialize (store_of s) = store_of s"
  by (rule initialize_fixed) (simp_all add: store_of_def)

lemma initialize_empty: "initialize Map.empty = store_of empty_session"
  by (simp add: initialize_def init_key_def store_of_def empty_session_def Let_def)

lemma session_of_store_of: "session_of (store_of s) = Inr s"
  by (simp add: session_of_def store_of_def)

text \<open>
  Claim C8. Initialisation is idempotent: running it a second time changes nothing, every
  entry already in the session state keeps its value, a session state that holds the
  four entries is left as it is and is read back unchanged, and on a fresh (empty)
  session state it yields the four defaults: no generated images, no context images, no
  current image and the empty description.
\<close>

theorem initialize_idempotent:
  "initialize (initialize st) = initialize st \<and>
   st \<subseteq>\<^sub>m initialize st \<and>
   initialize (store_of s) = store_of s \<and>
   session_of (initialize (store_of s)) = Inr s \<and>
   initialize Map.empty = store_of empty_session \<and>
   session_of (initialize Map.empty) = Inr empty_session"
proof -
  have "st \<subseteq>\<^sub>m initialize st"
    by (auto simp: map_le_def initialize_keeps)
  moreover have "session_of (initialize (store_of s)) = Inr s"
    by (simp only: initialize_store_of session_of_store_of)
  moreover have "session_of (initialize Map.empty) = Inr empty_session"
    by (simp only: initialize_empty session_of_store_of)
  ultimately show ?thesis
    by (simp only: initialize_idem initialize_store_of initialize_empty simp_thms)
qed

theorem initialize_idempotent_witness:
  "initialize (initialize [''image_history'' \<mapsto> Images [Image [1]]]) =
     initialize [''image_history'' \<mapsto> Images [Image [1]]] \<and>
   initialize [''image_history'' \<mapsto> Images [Image [1]]] ''image_history'' =
     Some (Images [Image [1]]) \<and>
   session_of (initialize (store_of
       \<lparr>generated_images = [Image [2]], image_history = [Image [1]],
        last_generated_image = Some (Image [2]), last_text_response = ''a ring''\<rparr>)) =
     Inr \<lparr>generated_images = [Image [2]], image_history = [Image [1]],
          last_generated_image = Some (Image [2]), last_text_response = ''a ring''\<rparr>"
proof -
  note t = initialize_idempotent [of "[''image_history'' \<mapsto> Images [Image [1]]]"
      "\<lparr>generated_images = [Image [2]], image_history = [Image [1]],
        last_generated_image = Some (Image [2]), last_text_response = ''a ring''\<rparr>"]
  from t have "[''image_history'' \<mapsto> Images [Image [1]]] \<subseteq>\<^sub>m
      initialize [''image_history'' \<mapsto> Images [Image [1]]]"
    by (elim conjE)
  then have "initialize [''image_history'' \<mapsto> Images [Image [1]]] ''image_history'' =
      Some (Images [Image [1]])"
    by (simp add: map_le_def)
  with t show ?thesis
    by (elim conjE) (intro conjI)
qed

subsection \<open>Empty prompt\<close>

text \<open>
  Claim C7. A round submitted with an empty prompt only shows a warning: no call to the
  model is made and the session state is returned as it was, in the first handler and
  in the follow-up handler.
\<close>

theorem empty_prompt_rejected:
  "generate_initial generate_content Image_open s [] files =
     \<lparr>state = s, messages = [warning ''Please enter an initial prompt.''],
      calls = [], rerun = False\<rparr> \<and>
   generate_next_version generate_content Image_open s [] files =
     \<lparr>state = s, messages = [warning ''Please enter a prompt for the next version.''],
      calls = [], rerun = False\<rparr>"
  by (simp add: generate_initial_def generate_next_version_def)

subsection \<open>Decoding a reply\<close>

lemma text_parts_Cons:
  "text_parts (p # ps) = (case part_text p of Some t \<Rightarrow> t # text_parts ps | None \<Rightarrow> text_parts ps)"
  by (simp add: text_parts_def split: option.splits)

lemma image_parts_Cons:
  "image_parts (p # ps) =
     (case part_text p of
        Some t \<Rightarrow> image_parts ps
      | None \<Rightarrow> (case inline_data p of Some b \<Rightarrow> b # image_parts ps | None \<Rightarrow> image_parts ps))"
  by (simp add: image_parts_def split: option.splits)

lemma parts_loop_acc:
  assumes "\<forall>b \<in> set (image_parts ps). Image_open (data b) = Inr (dec (data b))"
  shows "parts_loop Image_open ps gt gi =
     Inr (gt @ concat (map (\<lambda>t. t @ [CHR 0x0A]) (text_parts ps)),
          if image_parts ps = [] then gi else Some (dec (data (last (image_parts ps)))))"
  using assms
proof (induction ps arbitrary: gt gi)
  case Nil
  show ?case by (simp add: text_parts_def image_parts_def)
next
  case (Cons p ps)
  show ?case
  proof (cases "part_text p")
    case (Some t)
    with Cons show ?thesis
      by (simp add: text_parts_Cons image_parts_Cons)
  next
    case None
    note nt = this
    show ?thesis
    proof (cases "inline_data p")
      case None
      with nt Cons show ?thesis
        by (simp add: text_parts_Cons image_parts_Cons)
    next
      case (Some b)
      with nt Cons.prems have "Image_open (data b) = Inr (dec (data b))"
        and "\<forall>b \<in> set (image_parts ps). Image_open (data b) = Inr (dec (data b))"
        by (simp_all add: image_parts_Cons)
      with nt Some Cons.IH show ?thesis
        by (simp add: text_parts_Cons image_parts_Cons)
    qed
  qed
qed

text \<open>
  Claim C6. For every list of reply parts whose image payloads decode, the loop returns
  the concatenation of the text parts, each followed by a newline, together with the
  decoded last image part, or no image when the reply has no image part; a reply
  without an image part is a result, not an error. A part is a text part when its text
  is present (such a part is never read as an image), and an image part when its text is
  absent and its inline data is present.
\<close>

theorem reply_decoding:
  assumes "\<forall>b \<in> set (image_parts ps). Image_open (data b) = Inr (dec (data b))"
  shows "parts_loop Image_open ps [] None =
     Inr (concat (map (\<lambda>t. t @ [CHR 0x0A]) (text_parts ps)),
          if image_parts ps = [] then None else Some (dec (data (last (image_parts ps)))))"
  using parts_loop_acc [OF assms, of "[]" None] by simp

theorem reply_decoding_witness:
  "parts_loop (\<lambda>b. if b = [] then Inl UnidentifiedImageError else Inr (Image b))
     [\<lparr>part_text = Some ''A gold ring'', inline_data = None\<rparr>,
      \<lparr>part_text = None, inline_data = Some \<lparr>data = [1, 2]\<rparr>\<rparr>,
      \<lparr>part_text = Some ''with a ruby'', inline_data = None\<rparr>,
      \<lparr>part_text = None, inline_data = None\<rparr>,
      \<lparr>part_text = None, inline_data = Some \<lparr>data = [3]\<rparr>\<rparr>] [] None =
   Inr (''A gold ring'' @ [CHR 0x0A] @ ''with a ruby'' @ [CHR 0x0A], Some (Image [3])) \<and>
   parts_loop (\<lambda>b. if b = [] then Inl UnidentifiedImageError else Inr (Image b))
     [\<lparr>part_text = Some ''only text'', inline_data = None\<rparr>] [] None =
   Inr (''only text'' @ [CHR 0x0A], None)"
  using reply_decoding [of
     "[\<lparr>part_text = Some ''A gold ring'', inline_data = None\<rparr>,
      \<lparr>part_text = None, inline_data = Some \<lparr>data = [1, 2]\<rparr>\<rparr>,
      \<lparr>part_text = Some ''with a ruby'', inline_data = None\<rparr>,
      \<lparr>part_text = None, inline_data = None\<rparr>,
      \<lparr>part_text = None, inline_data = Some \<lparr>data = [3]\<rparr>\<rparr>]"
     "\<lambda>b. if b = [] then Inl UnidentifiedImageError else Inr (Image b)" Image]
    reply_decoding [of "[\<lparr>part_text = Some ''only text'', inline_data = None\<rparr>]"
     "\<lambda>b. if b = [] then Inl UnidentifiedImageError else Inr (Image b)" Image]
  by (simp add: text_parts_def image_parts_def)

subsection \<open>The handlers on a round that reaches the model\<close>

lemma open_images_Nil_iff: "open_images Image_open fs = Inr [] \<longleftrightarrow> fs = []"
  by (cases fs) (auto split: sum.splits)

lemma open_images_all2:
  "open_images Image_open fs = Inr imgs \<Longrightarrow> list_all2 (\<lambda>f i. Image_open f = Inr i) fs imgs"
  by (induction fs arbitrary: imgs) (auto split: sum.splits)

lemma generate_initial_failed:
  assumes "p \<noteq> []" and "open_images Image_open fs = Inr imgs"
    and "generate_content (Str p # map Img imgs) = Inl e"
  shows "generate_initial generate_content Image_open s p fs =
     \<lparr>state = (if fs = [] then s else s\<lparr>image_history := imgs\<rparr>),
      messages = [info ''Generating initial image... This may take a moment.'',
                  error_exc ''An error occurred during initial generation: '' e],
      calls = [(Str p # map Img imgs, Inl e)], rerun = False\<rparr>"
  using assms by (cases "fs = []") (auto simp: generate_initial_def Let_def)

lemma generate_next_version_failed:
  assumes "p \<noteq> []" and "open_images Image_open fs = Inr imgs"
    and "generate_content (Str p # seed_of s @ map Img imgs) = Inl e"
  shows "generate_next_version generate_content Image_open s p fs =
     \<lparr>state = s\<lparr>image_history := image_history s @ imgs\<rparr>,
      messages = [info ''Generating next image version... This may take a moment.'',
                  error_exc ''An error occurred during follow-up generation: '' e],
      calls = [(Str p # seed_of s @ map Img imgs, Inl e)], rerun = False\<rparr>"
  using assms by (cases "fs = []") (auto simp: generate_next_version_def seed_of_def Let_def)

lemma generate_initial_decoded:
  assumes "p \<noteq> []" and "open_images Image_open fs = Inr imgs"
    and "generate_content (Str p # map Img imgs) = Inr response"
    and "response_parts response = Inr ps"
    and "parts_loop Image_open ps [] None = Inr (t, gi)"
  shows "generate_initial generate_content Image_open s p fs =
     \<lparr>state =
        (case gi of
           Some img \<Rightarrow>
             s\<lparr>image_history := (if fs = [] then image_history s else imgs),
               last_generated_image := Some img, last_text_response := t,
               generated_images := generated_images s @ [img]\<rparr>
         | None \<Rightarrow>
             s\<lparr>image_history := (if fs = [] then image_history s else imgs),
               last_text_response := t\<rparr>),
      messages =
        [info ''Generating initial image... This may take a moment.'',
         (case gi of
            Some img \<Rightarrow> success ''Initial image generated successfully!''
          | None \<Rightarrow> warning ''No image was generated. The model might have only returned text.'')],
      calls = [(Str p # map Img imgs, Inr response)], rerun = False\<rparr>"
  using assms by (cases "fs = []") (auto simp: generate_initial_def Let_def split: option.splits)

lemma generate_next_version_decoded:
  assumes "p \<noteq> []" and "open_images Image_open fs = Inr imgs"
    and "generate_content (Str p # seed_of s @ map Img imgs) = Inr response"
    and "response_parts response = Inr ps"
    and "parts_loop Image_open ps [] None = Inr (t, gi)"
  shows "generate_next_version generate_content Image_open s p fs =
     \<lparr>state =
        (case gi of
           Some img \<Rightarrow>
             s\<lparr>image_history := image_history s @ imgs,
               last_generated_image := Some img, last_text_response := t,
               generated_images := generated_images s @ [img]\<rparr>
         | None \<Rightarrow>
             s\<lparr>image_history := image_history s @ imgs, last_text_response := t\<rparr>),
      messages =
        [info ''Generating next image version... This may take a moment.'',
         (case gi of
            Some img \<Rightarrow> success ''Image refined successfully!''
          | None \<Rightarrow> warning ''No new image was generated. The model might have only returned text.'')],
      calls = [(Str p # seed_of s @ map Img imgs, Inr response)], rerun = (gi \<noteq> None)\<rparr>"
  using assms by (cases "fs = []") (auto simp: generate_next_version_def seed_of_def Let_def split: option.splits)

lemma image_history_initial:
  "image_history (state (generate_initial generate_content Image_open s p fs)) =
     (if p \<noteq> [] \<and> fs \<noteq> [] then
        (case open_images Image_open fs of Inr imgs \<Rightarrow> imgs | Inl e \<Rightarrow> image_history s)
      else image_history s)"
  by (simp add: generate_initial_def Let_def split: sum.splits option.splits prod.splits)

lemma image_history_next:
  "image_history (state (generate_next_version generate_content Image_open s p fs)) =
     image_history s @
     (if p \<noteq> [] then (case open_images Image_open fs of Inr imgs \<Rightarrow> imgs | Inl e \<Rightarrow> [])
      else [])"
  by (cases "fs = []")
    (simp_all add: generate_next_version_def Let_def split: sum.splits option.splits prod.splits)









lemma result_of_Inr:
  "result_of Image_open (Inr response) = Inr (t, gi) \<Longrightarrow>
     \<exists>ps. response_parts response = Inr ps \<and> parts_loop Image_open ps [] None = Inr (t, gi)"
  by (auto simp: result_of_def split: sum.splits)

lemma calls_initial:
  assumes "p \<noteq> []" and "open_images Image_open fs = Inr imgs"
  shows "map fst (calls (generate_initial generate_content Image_open s p fs)) =
     [Str p # map Img imgs]"
  using assms
  by (cases "fs = []")
    (auto simp: generate_initial_def Let_def split: sum.splits option.splits prod.splits)

lemma calls_next:
  assumes "p \<noteq> []" and "open_images Image_open fs = Inr imgs"
  shows "map fst (calls (generate_next_version generate_content Image_open s p fs)) =
     [Str p # seed_of s @ map Img imgs]"
  using assms
  by (cases "fs = []")
    (auto simp: generate_next_version_def seed_of_def Let_def
      split: sum.splits option.splits prod.splits)

subsection \<open>A round whose call to the model raises\<close>

text \<open>
  Claim C1 as stated fails: both handlers store the uploaded images in
  \<open>image_history\<close> before the call, so a round with uploads whose call raises leaves
  a session state that differs from the one before the round.
\<close>

theorem failed_call_not_atomic_counterexample:
  "state (generate_initial (\<lambda>c. Inl (APIError ''quota'')) (\<lambda>b. Inr (Image b))
            empty_session ''a ring'' [[1]]) \<noteq> empty_session \<and>
   state (generate_next_version (\<lambda>c. Inl (APIError ''quota'')) (\<lambda>b. Inr (Image b))
            (empty_session\<lparr>last_generated_image := Some (Image [7])\<rparr>) ''in blue'' [[1]]) \<noteq>
     empty_session\<lparr>last_generated_image := Some (Image [7])\<rparr>"
  by (simp add: generate_initial_def generate_next_version_def empty_session_def Let_def)

text \<open>
  Claim C1, amended. For every round (non-empty prompt, uploads that decode) whose call
  to the model raises, the session state after the round is the state before it except
  for \<open>image_history\<close>: the generated images, the last generated image and the last
  text response are as before. \<open>image_history\<close> is as before when the round uploaded
  no image; otherwise the first handler has replaced it by the round's uploads and the
  follow-up handler has appended them.
\<close>

theorem failed_call_state:
  assumes "p \<noteq> []" and "open_images Image_open fs = Inr imgs"
  shows "(generate_content (Str p # map Img imgs) = Inl e \<longrightarrow>
            state (generate_initial generate_content Image_open s p fs) =
              (if fs = [] then s else s\<lparr>image_history := imgs\<rparr>)) \<and>
         (generate_content (Str p # seed_of s @ map Img imgs) = Inl e \<longrightarrow>
            state (generate_next_version generate_content Image_open s p fs) =
              s\<lparr>image_history := image_history s @ imgs\<rparr>)"
  using assms by (simp add: generate_initial_failed generate_next_version_failed)

theorem failed_call_state_witness:
  "state (generate_initial (\<lambda>c. Inl (APIError ''quota'')) (\<lambda>b. Inr (Image b))
       \<lparr>generated_images = [Image [7]], image_history = [Image [5]],
        last_generated_image = Some (Image [7]), last_text_response = ''a ring''\<rparr>
       ''a necklace'' [[1], [2]]) =
     \<lparr>generated_images = [Image [7]], image_history = [Image [1], Image [2]],
      last_generated_image = Some (Image [7]), last_text_response = ''a ring''\<rparr> \<and>
   state (generate_next_version (\<lambda>c. Inl (APIError ''quota'')) (\<lambda>b. Inr (Image b))
       \<lparr>generated_images = [Image [7]], image_history = [Image [5]],
        last_generated_image = Some (Image [7]), last_text_response = ''a ring''\<rparr>
       ''a necklace'' [[1], [2]]) =
     \<lparr>generated_images = [Image [7]], image_history = [Image [5], Image [1], Image [2]],
      last_generated_image = Some (Image [7]), last_text_response = ''a ring''\<rparr>"
  using failed_call_state [of "''a necklace''" "\<lambda>b. Inr (Image b)" "[[1], [2]]"
      "[Image [1], Image [2]]" "\<lambda>c. Inl (APIError ''quota'')" "APIError ''quota''"
      "\<lparr>generated_images = [Image [7]], image_history = [Image [5]],
        last_generated_image = Some (Image [7]), last_text_response = ''a ring''\<rparr>"]
  by simp

subsection \<open>The context images\<close>

text \<open>
  Claim C2 as stated fails: the first handler assigns the uploads to
  \<open>image_history\<close>, so the entries of an earlier round are not a prefix of the new
  value.
\<close>

theorem image_history_replaced_counterexample:
  "\<not> prefix (image_history (empty_session\<lparr>image_history := [Image [1]]\<rparr>))
      (image_history (state (generate_initial
         (\<lambda>c. Inr \<lparr>candidates = Some [\<lparr>content = Some \<lparr>parts = Some []\<rparr>\<rparr>]\<rparr>)
         (\<lambda>b. Inr (Image b)) (empty_session\<lparr>image_history := [Image [1]]\<rparr>) ''a ring'' [[2]])))"
  by (simp add: generate_initial_def empty_session_def response_parts_def Let_def)

text \<open>
  Claim C2, amended. The follow-up handler only appends to \<open>image_history\<close>: it adds
  the round's decoded uploads at the end (nothing when the prompt is empty or an upload
  does not decode), so the earlier entries stay as a prefix. The first handler replaces
  \<open>image_history\<close> by the round's decoded uploads when the prompt is non-empty and
  there are uploads that decode, and leaves it unchanged otherwise.
\<close>

theorem image_history_updates:
  "image_history (state (generate_next_version generate_content Image_open s p fs)) =
     image_history s @
     (if p \<noteq> [] then (case open_images Image_open fs of Inr imgs \<Rightarrow> imgs | Inl e \<Rightarrow> [])
      else []) \<and>
   prefix (image_history s)
     (image_history (state (generate_next_version generate_content Image_open s p fs))) \<and>
   image_history (state (generate_initial generate_content Image_open s p fs)) =
     (if p \<noteq> [] \<and> fs \<noteq> [] then
        (case open_images Image_open fs of Inr imgs \<Rightarrow> imgs | Inl e \<Rightarrow> image_history s)
      else image_history s)"
  by (simp add: image_history_initial image_history_next)

subsection \<open>A round without an image\<close>

text \<open>
  Claim C3. For every round (non-empty prompt, uploads that decode) whose reply decodes
  to a text and no image, in either handler, the last generated image and the list of
  generated images are as before the round, and the last text response is the text of
  the round.
\<close>

theorem text_only_round:
  assumes "p \<noteq> []" and "open_images Image_open fs = Inr imgs"
    and "result_of Image_open (Inr response) = Inr (t, None)"
  shows "(generate_content (Str p # map Img imgs) = Inr response \<longrightarrow>
            last_generated_image (state (generate_initial generate_content Image_open s p fs)) =
              last_generated_image s \<and>
            generated_images (state (generate_initial generate_content Image_open s p fs)) =
              generated_images s \<and>
            last_text_response (state (generate_initial generate_content Image_open s p fs)) = t) \<and>
         (generate_content (Str p # seed_of s @ map Img imgs) = Inr response \<longrightarrow>
            last_generated_image (state (generate_next_version generate_content Image_open s p fs)) =
              last_generated_image s \<and>
            generated_images (state (generate_next_version generate_content Image_open s p fs)) =
              generated_images s \<and>
            last_text_response (state (generate_next_version generate_content Image_open s p fs)) = t)"
proof -
  from assms(3) obtain ps where ps: "response_parts response = Inr ps"
    "parts_loop Image_open ps [] None = Inr (t, None)"
    by (blast dest: result_of_Inr)
  show ?thesis
    by (simp add: generate_initial_decoded [OF assms(1,2) _ ps]
        generate_next_version_decoded [OF assms(1,2) _ ps])
qed

theorem text_only_round_witness:
  "state (generate_initial
       (\<lambda>c. Inr \<lparr>candidates = Some [\<lparr>content = Some \<lparr>parts = Some
          [\<lparr>part_text = Some ''I cannot draw that'', inline_data = None\<rparr>]\<rparr>\<rparr>]\<rparr>)
       (\<lambda>b. Inr (Image b))
       \<lparr>generated_images = [Image [7]], image_history = [],
        last_generated_image = Some (Image [7]), last_text_response = ''a ring''\<rparr>
       ''a necklace'' []) =
     \<lparr>generated_images = [Image [7]], image_history = [],
      last_generated_image = Some (Image [7]),
      last_text_response = ''I cannot draw that'' @ [CHR 0x0A]\<rparr> \<and>
   state (generate_next_version
       (\<lambda>c. Inr \<lparr>candidates = Some [\<lparr>content = Some \<lparr>parts = Some
          [\<lparr>part_text = Some ''I cannot draw that'', inline_data = None\<rparr>]\<rparr>\<rparr>]\<rparr>)
       (\<lambda>b. Inr (Image b))
       \<lparr>generated_images = [Image [7]], image_history = [],
        last_generated_image = Some (Image [7]), last_text_response = ''a ring''\<rparr>
       ''a necklace'' []) =
     \<lparr>generated_images = [Image [7]], image_history = [],
      last_generated_image = Some (Image [7]),
      last_text_response = ''I cannot draw that'' @ [CHR 0x0A]\<rparr>"
proof -
  let ?response = "\<lparr>candidates = Some [\<lparr>content = Some \<lparr>parts = Some
          [\<lparr>part_text = Some ''I cannot draw that'', inline_data = None\<rparr>]\<rparr>\<rparr>]\<rparr>"
  let ?s = "\<lparr>generated_images = [Image [7]], image_history = [],
        last_generated_image = Some (Image [7]), last_text_response = ''a ring''\<rparr>"
  have r: "result_of (\<lambda>b. Inr (Image b)) (Inr ?response) =
      Inr (''I cannot draw that'' @ [CHR 0x0A], None)"
    by (simp add: result_of_def response_parts_def)
  have o: "open_images (\<lambda>b. Inr (Image b)) [] = Inr []"
    by simp
  have p: "''a necklace'' \<noteq> []"
    by simp
  note t = text_only_round [OF p o r, of "\<lambda>c. Inr ?response" ?s]
  have i: "image_history (state (generate_initial (\<lambda>c. Inr ?response) (\<lambda>b. Inr (Image b)) ?s
       ''a necklace'' [])) = []"
    by (simp add: image_history_initial)
  have n: "image_history (state (generate_next_version (\<lambda>c. Inr ?response) (\<lambda>b. Inr (Image b)) ?s
       ''a necklace'' [])) = []"
    by (simp add: image_history_next)
  from t i n show ?thesis
    by (simp add: session.equality)
qed

subsection \<open>The length of the history\<close>


subsection \<open>The request sent to the model\<close>

text \<open>
  Claim C5. Every round (non-empty prompt, uploads that decode) makes one call, and the
  contents it sends are the prompt, then the last generated image if there is one (in
  the follow-up handler only), then the decoded uploads, each upload decoded at its
  position in the upload order.
\<close>

theorem request_parts_order:
  assumes "p \<noteq> []" and "open_images Image_open fs = Inr imgs"
  shows "map fst (calls (generate_initial generate_content Image_open s p fs)) =
           [Str p # map Img imgs] \<and>
         map fst (calls (generate_next_version generate_content Image_open s p fs)) =
           [Str p # (case last_generated_image s of Some img \<Rightarrow> [Img img] | None \<Rightarrow> []) @
              map Img imgs] \<and>
         list_all2 (\<lambda>f i. Image_open f = Inr i) fs imgs"
  using assms calls_initial [OF assms] calls_next [OF assms] open_images_all2 [OF assms(2)]
  by (simp add: seed_of_def)

theorem request_parts_order_witness:
  "map fst (calls (generate_initial (\<lambda>c. Inl (APIError ''quota'')) (\<lambda>b. Inr (Image b))
       empty_session ''a ring'' [[1], [2]])) =
     [[Str ''a ring'', Img (Image [1]), Img (Image [2])]] \<and>
   map fst (calls (generate_next_version (\<lambda>c. Inl (APIError ''quota'')) (\<lambda>b. Inr (Image b))
       (empty_session\<lparr>last_generated_image := Some (Image [7])\<rparr>) ''in blue'' [[1], [2]])) =
     [[Str ''in blue'', Img (Image [7]), Img (Image [1]), Img (Image [2])]]"
  using request_parts_order [of "''a ring''" "\<lambda>b. Inr (Image b)" "[[1], [2]]"
      "[Image [1], Image [2]]" "\<lambda>c. Inl (APIError ''quota'')" empty_session]
    request_parts_order [of "''in blue''" "\<lambda>b. Inr (Image b)" "[[1], [2]]"
      "[Image [1], Image [2]]" "\<lambda>c. Inl (APIError ''quota'')"
      "empty_session\<lparr>last_generated_image := Some (Image [7])\<rparr>"]
  by simp

subsection \<open>One round, at most one more image\<close>




subsection \<open>The API key\<close>

text \<open>
  Claim C9. The key is the value of the environment variable when that is present and
  non-empty, without the secrets store being consulted; otherwise it is what the
  secrets store gives. When neither gives a non-empty key, the script shows the error
  and stops at once: whatever the widgets hold, no handler runs, no call is made and
  the session state is untouched; when the lookup in the secrets store raises, the
  script ends in that exception in the same way. With a non-empty key the script does
  not stop there.
\<close>

theorem key_resolution:
  "(truthy (getenv ''GEMINI_KEY'') \<longrightarrow>
      resolve_key getenv secrets_get = Inr (getenv ''GEMINI_KEY'')) \<and>
   (\<not> truthy (getenv ''GEMINI_KEY'') \<longrightarrow>
      resolve_key getenv secrets_get = secrets_get ''GEMINI_KEY'') \<and>
   (\<not> truthy (getenv ''GEMINI_KEY'') \<and> secrets_get ''GEMINI_KEY'' = Inr k \<and> \<not> truthy k \<longrightarrow>
      script getenv secrets_get genai_Client Image_open st inp =
        \<lparr>store = st,
         shown = [error ''Gemini API key not found. Please set it in your environment variables or Streamlit secrets.''],
         sent = [], ending = Stopped\<rparr>) \<and>
   (\<not> truthy (getenv ''GEMINI_KEY'') \<and> secrets_get ''GEMINI_KEY'' = Inl e \<longrightarrow>
      script getenv secrets_get genai_Client Image_open st inp =
        \<lparr>store = st, shown = [], sent = [], ending = Raised e\<rparr>) \<and>
   (resolve_key getenv secrets_get = Inr k' \<and> truthy k' \<longrightarrow>
      ending (script getenv secrets_get genai_Client Image_open st inp) \<noteq> Stopped)"
  by (auto simp: resolve_key_def truthy_def script_def Let_def split: option.splits sum.splits)

theorem key_resolution_witness:
  "resolve_key (\<lambda>n. Some ''from-env'') (\<lambda>n. Inr (Some ''from-secrets'')) = Inr (Some ''from-env'') \<and>
   resolve_key (\<lambda>n. Some []) (\<lambda>n. Inr (Some ''from-secrets'')) = Inr (Some ''from-secrets'') \<and>
   script (\<lambda>n. None) (\<lambda>n. Inr None) (\<lambda>k c. Inl (APIError ''unused'')) (\<lambda>b. Inr (Image b))
       (store_of empty_session)
       \<lparr>initial_uploader = [], initial_prompt_area = ''a ring'', generate_initial_button = True,
        followup_prompt_area = [], followup_uploader = [], generate_next_version_button = False\<rparr> =
     \<lparr>store = store_of empty_session,
      shown = [error ''Gemini API key not found. Please set it in your environment variables or Streamlit secrets.''],
      sent = [], ending = Stopped\<rparr> \<and>
   script (\<lambda>n. None) (\<lambda>n. Inl StreamlitSecretNotFoundError) (\<lambda>k c. Inl (APIError ''unused''))
       (\<lambda>b. Inr (Image b)) (store_of empty_session)
       \<lparr>initial_uploader = [], initial_prompt_area = ''a ring'', generate_initial_button = True,
        followup_prompt_area = [], followup_uploader = [], generate_next_version_button = False\<rparr> =
     \<lparr>store = store_of empty_session, shown = [], sent = [],
      ending = Raised StreamlitSecretNotFoundError\<rparr> \<and>
   ending (script (\<lambda>n. Some ''from-env'') (\<lambda>n. Inr None) (\<lambda>k c. Inl (APIError ''unused''))
       (\<lambda>b. Inr (Image b)) (store_of empty_session)
       \<lparr>initial_uploader = [], initial_prompt_area = ''a ring'', generate_initial_button = True,
        followup_prompt_area = [], followup_uploader = [], generate_next_version_button = False\<rparr>) \<noteq>
     Stopped"
  using key_resolution [where getenv = "\<lambda>n. Some ''from-env''"
      and secrets_get = "\<lambda>n. Inr (Some ''from-secrets'')"]
    key_resolution [where getenv = "\<lambda>n. Some []"
      and secrets_get = "\<lambda>n. Inr (Some ''from-secrets'')"]
    key_resolution [where getenv = "\<lambda>n. None" and secrets_get = "\<lambda>n. Inr None" and k = None
      and genai_Client = "\<lambda>k c. Inl (APIError ''unused'')"
      and Image_open = "\<lambda>b. Inr (Image b)" and st = "store_of empty_session"
      and inp = "\<lparr>initial_uploader = [], initial_prompt_area = ''a ring'',
        generate_initial_button = True, followup_prompt_area = [], followup_uploader = [],
        generate_next_version_button = False\<rparr>"]
    key_resolution [where getenv = "\<lambda>n. None"
      and secrets_get = "\<lambda>n. Inl StreamlitSecretNotFoundError"
      and e = StreamlitSecretNotFoundError
      and genai_Client = "\<lambda>k c. Inl (APIError ''unused'')"
      and Image_open = "\<lambda>b. Inr (Image b)" and st = "store_of empty_session"
      and inp = "\<lparr>initial_uploader = [], initial_prompt_area = ''a ring'',
        generate_initial_button = True, followup_prompt_area = [], followup_uploader = [],
        generate_next_version_button = False\<rparr>"]
    key_resolution [where getenv = "\<lambda>n. Some ''from-env''" and secrets_get = "\<lambda>n. Inr None"
      and k' = "Some ''from-env''"
      and genai_Client = "\<lambda>k c. Inl (APIError ''unused'')"
      and Image_open = "\<lambda>b. Inr (Image b)" and st = "store_of empty_session"
      and inp = "\<lparr>initial_uploader = [], initial_prompt_area = ''a ring'',
        generate_initial_button = True, followup_prompt_area = [], followup_uploader = [],
        generate_next_version_button = False\<rparr>"]
  by (simp add: truthy_def)

end
